theory Spec2Isabelle
  imports Main "HOL-Library.AList"
begin

unbundle bit_operations_syntax

section \<open>The Golay codec of \<open>golay_example.py\<close>\<close>

text \<open>
  Python integers are unbounded, so every value is an \<open>int\<close>; \<open>&\<close>, \<open>|\<close>, \<open>^\<close>,
  \<open><<\<close> and \<open>>>\<close> are \<open>AND\<close>, \<open>OR\<close>, \<open>XOR\<close>, \<open>push_bit\<close> and \<open>drop_bit\<close>, which on
  \<open>int\<close> are the same two's-complement operations. Loop indices and shift amounts are
  \<open>nat\<close>. The two exceptions the methods can raise are values of \<open>py_error\<close>:
  \<open>ValueError\<close> from the range check of \<open>encode\<close>, \<open>IndexError\<close> from indexing a
  matrix row that does not exist.
\<close>

datatype py_error = ValueError | IndexError

text \<open>
  The class \<open>GolayCode\<close>: its three attributes. The syndrome table is a Python \<open>dict\<close>;
  it is kept as an association list in insertion order, where \<open>table[k] = v\<close> is
  \<open>AList.update k v\<close> (an existing key keeps its place and gets the new value, a new key
  is appended) and \<open>len(table)\<close> is the length of the list.
\<close>

record GolayCode =
  generator_matrix :: "int list"
  parity_check_matrix :: "int list"
  syndrome_table :: "(int \<times> int) list"

text \<open>\<open>xs[i]\<close> for a non-negative index: an index past the end raises.\<close>

definition getitem :: "'a list \<Rightarrow> nat \<Rightarrow> py_error + 'a" where
  "getitem xs i = (if i < length xs then Inr (xs ! i) else Inl IndexError)"

text \<open>
  \<open>bin(x).count('1')\<close>: \<open>bin\<close> writes the binary digits of \<open>|x|\<close> after the prefix
  \<open>0b\<close> (or \<open>-0b\<close>), so the count is the number of one digits of \<open>|x|\<close>.
\<close>

function count_ones :: "int \<Rightarrow> int" where
  "count_ones n = (if n \<le> 0 then 0 else n mod 2 + count_ones (n div 2))"
  by pat_completeness auto
termination
  by (relation "measure nat") auto

declare count_ones.simps [simp del]

definition bin_count_1 :: "int \<Rightarrow> int" where
  "bin_count_1 x = count_ones \<bar>x\<bar>"

subsection \<open>\<open>_calculate_syndrome\<close>\<close>

text \<open>The loop \<open>for i in range(11)\<close>, run over the list of its indices.\<close>

fun calculate_syndrome_loop :: "GolayCode \<Rightarrow> int \<Rightarrow> nat list \<Rightarrow> int \<Rightarrow> py_error + int" where
  "calculate_syndrome_loop self received [] syndrome = Inr syndrome"
| "calculate_syndrome_loop self received (i # rest) syndrome =
     (case getitem (parity_check_matrix self) i of
        Inl e \<Rightarrow> Inl e
      | Inr row \<Rightarrow>
          (let parity = bin_count_1 (received AND row) mod 2
           in calculate_syndrome_loop self received rest (syndrome OR push_bit i parity)))"

definition calculate_syndrome :: "GolayCode \<Rightarrow> int \<Rightarrow> py_error + int" where
  "calculate_syndrome self received = calculate_syndrome_loop self received [0..<11] 0"

subsection \<open>\<open>_build_syndrome_table\<close>\<close>

text \<open>The first loop: all single-bit errors, \<open>for i in range(23)\<close>.\<close>

fun single_bit_loop ::
  "GolayCode \<Rightarrow> nat list \<Rightarrow> (int \<times> int) list \<Rightarrow> py_error + (int \<times> int) list" where
  "single_bit_loop self [] table = Inr table"
| "single_bit_loop self (i # rest) table =
     (let error = push_bit i 1
      in case calculate_syndrome self error of
           Inl e \<Rightarrow> Inl e
         | Inr syndrome \<Rightarrow> single_bit_loop self rest (AList.update syndrome error table))"

text \<open>The inner loop of the second pass, \<open>for j in range(i + 1, 23)\<close>, for a fixed \<open>i\<close>.\<close>

fun two_bit_inner_loop ::
  "GolayCode \<Rightarrow> nat \<Rightarrow> nat list \<Rightarrow> (int \<times> int) list \<Rightarrow> py_error + (int \<times> int) list" where
  "two_bit_inner_loop self i [] table = Inr table"
| "two_bit_inner_loop self i (j # rest) table =
     (let error = push_bit i 1 OR push_bit j 1
      in case calculate_syndrome self error of
           Inl e \<Rightarrow> Inl e
         | Inr syndrome \<Rightarrow> two_bit_inner_loop self i rest (AList.update syndrome error table))"

text \<open>The outer loop of the second pass, \<open>for i in range(23)\<close>.\<close>

fun two_bit_loop ::
  "GolayCode \<Rightarrow> nat list \<Rightarrow> (int \<times> int) list \<Rightarrow> py_error + (int \<times> int) list" where
  "two_bit_loop self [] table = Inr table"
| "two_bit_loop self (i # rest) table =
     (case two_bit_inner_loop self i [i + 1..<23] table of
        Inl e \<Rightarrow> Inl e
      | Inr table' \<Rightarrow> two_bit_loop self rest table')"

definition build_syndrome_table :: "GolayCode \<Rightarrow> py_error + (int \<times> int) list" where
  "build_syndrome_table self =
     (case single_bit_loop self [0..<23] [] of
        Inl e \<Rightarrow> Inl e
      | Inr table \<Rightarrow> two_bit_loop self [0..<23] table)"

subsection \<open>\<open>__init__\<close>\<close>

text \<open>
  The constructor stores the two matrices, then builds the table from the object that
  has them (the table attribute does not exist yet; the builder never reads it).
\<close>

definition GolayCode_init :: "py_error + GolayCode" where
  "GolayCode_init =
     (let self = \<lparr>
        generator_matrix = [
          0b10000000000010111100001,
          0b01000000000011011100010,
          0b00100000000011011110100,
          0b00010000000011001111000,
          0b00001000000010101110001,
          0b00000100000001011101001,
          0b00000010000010110101010,
          0b00000001000001101011010,
          0b00000000100011010011100,
          0b00000000010010100111100,
          0b00000000001001001111100,
          0b00000000000111110111010],
        parity_check_matrix = [
          0b10111100001000000000001,
          0b11011100010000000000010,
          0b11011110100000000000100,
          0b11001111000000000001000,
          0b10101110001000000010000,
          0b01011101001000000100000,
          0b10110101010000001000000,
          0b01101011010000010000000,
          0b11010011100000100000000,
          0b10100111100001000000000,
          0b01001111100010000000000,
          0b11110111010100000000000],
        syndrome_table = []\<rparr>
      in case build_syndrome_table self of
           Inl e \<Rightarrow> Inl e
         | Inr table \<Rightarrow> Inr (self\<lparr>syndrome_table := table\<rparr>))"

subsection \<open>\<open>encode\<close>\<close>

text \<open>The loop \<open>for i in range(12)\<close>; a row is read only when bit \<open>i\<close> of the data is set.\<close>

fun encode_loop :: "GolayCode \<Rightarrow> int \<Rightarrow> nat list \<Rightarrow> int \<Rightarrow> py_error + int" where
  "encode_loop self data [] codeword = Inr codeword"
| "encode_loop self data (i # rest) codeword =
     (if drop_bit i data AND 1 \<noteq> 0
      then (case getitem (generator_matrix self) i of
              Inl e \<Rightarrow> Inl e
            | Inr row \<Rightarrow> encode_loop self data rest (codeword XOR row))
      else encode_loop self data rest codeword)"

definition encode :: "GolayCode \<Rightarrow> int \<Rightarrow> py_error + int" where
  "encode self data =
     (if data < 0 \<or> data \<ge> push_bit 12 1 then Inl ValueError
      else case encode_loop self data [0..<12] 0 of
             Inl e \<Rightarrow> Inl e
           | Inr codeword \<Rightarrow> Inr (codeword AND (push_bit 23 1 - 1)))"

subsection \<open>\<open>decode\<close>\<close>

text \<open>
  The membership test \<open>syndrome in self.syndrome_table\<close> and the lookup that follows it
  are one \<open>map_of\<close>.
\<close>

definition decode :: "GolayCode \<Rightarrow> int \<Rightarrow> py_error + (int \<times> int)" where
  "decode self received0 =
     (let received = received0 AND (push_bit 23 1 - 1)
      in case calculate_syndrome self received of
           Inl e \<Rightarrow> Inl e
         | Inr syndrome \<Rightarrow>
             if syndrome = 0 then Inr (drop_bit 11 received, 0)
             else (case map_of (syndrome_table self) syndrome of
                     Some error_pattern \<Rightarrow>
                       (let corrected = received XOR error_pattern;
                            errors = bin_count_1 error_pattern
                        in Inr (drop_bit 11 corrected, errors))
                   | None \<Rightarrow> Inr (drop_bit 11 received, - 1)))"

section \<open>The constructed instance\<close>

text \<open>
  The constructor returns an object: no index is out of range while the table is built.
  Its value, computed by the kernel from the definitions above: the two matrices as
  written, and the table the builder leaves behind, in insertion order (a syndrome that
  several error patterns share holds the last pattern written to it).
\<close>

lemma GolayCode_init_value:
  "GolayCode_init = Inr \<lparr>
        generator_matrix = [
          0b10000000000010111100001,
          0b01000000000011011100010,
          0b00100000000011011110100,
          0b00010000000011001111000,
          0b00001000000010101110001,
          0b00000100000001011101001,
          0b00000010000010110101010,
          0b00000001000001101011010,
          0b00000000100011010011100,
          0b00000000010010100111100,
          0b00000000001001001111100,
          0b00000000000111110111010],
        parity_check_matrix = [
          0b10111100001000000000001,
          0b11011100010000000000010,
          0b11011110100000000000100,
          0b11001111000000000001000,
          0b10101110001000000010000,
          0b01011101001000000100000,
          0b10110101010000001000000,
          0b01101011010000010000000,
          0b11010011100000100000000,
          0b10100111100001000000000,
          0b01001111100010000000000,
          0b11110111010100000000000],
        syndrome_table = [
          (1, 2049), (2, 2050), (4, 2052), (8, 2056), (16, 2064), (32, 2080),
          (64, 2112), (128, 2176), (256, 2304), (512, 2560), (1024, 3072), (0, 2048),
          (49, 6144), (194, 10240), (1796, 18432), (2024, 34816), (1948, 67584), (1663, 133120),
          (1215, 264192), (359, 526336), (721, 1050624), (1454, 2099200), (863, 4196352), (3, 3),
          (5, 5), (9, 9), (17, 4128), (33, 4112), (65, 65), (129, 129),
          (257, 257), (513, 513), (1025, 1025), (48, 48), (195, 8193), (1797, 16385),
          (2025, 32769), (1949, 65537), (1662, 131073), (1214, 262145), (358, 524289), (720, 1048577),
          (1455, 2097153), (862, 4194305), (6, 6), (10, 10), (18, 18), (34, 34),
          (66, 8320), (130, 8256), (258, 258), (514, 514), (1026, 1026), (51, 4098),
          (192, 192), (1798, 16386), (2026, 32770), (1950, 65538), (1661, 131074), (1213, 262146),
          (357, 524290), (723, 1048578), (1452, 2097154), (861, 4194306), (12, 12), (20, 20),
          (36, 36), (68, 68), (132, 132), (260, 260), (516, 516), (1028, 1028),
          (53, 4100), (198, 8196), (1792, 16388), (2028, 32772), (1944, 65540), (1659, 131076),
          (1211, 262148), (355, 524292), (725, 1048580), (1450, 2097156), (859, 4194308), (24, 24),
          (40, 40), (72, 72), (136, 136), (264, 264), (520, 520), (1032, 1032),
          (57, 4104), (202, 8200), (1804, 16392), (2016, 4456448), (1940, 65544), (1655, 131080),
          (1207, 4227072), (367, 524296), (729, 1048584), (1446, 2097160), (855, 294912), (80, 80),
          (144, 144), (272, 272), (528, 528), (1040, 1040), (210, 8208), (1812, 16400),
          (2040, 32784), (1932, 65552), (1647, 131088), (1199, 262160), (375, 524304), (705, 1048592),
          (1470, 2097168), (847, 4194320), (96, 96), (160, 160), (288, 288), (544, 544),
          (1056, 1056), (226, 8224), (1828, 16416), (1992, 32800), (1980, 65568), (1631, 131104),
          (1183, 262176), (327, 524320), (753, 1048608), (1422, 2097184), (895, 4194336), (320, 320),
          (576, 576), (1088, 1088), (113, 4160), (1860, 16448), (1960, 32832), (2012, 65600),
          (1599, 131136), (1279, 262208), (295, 524352), (657, 1048640), (1518, 2097216), (799, 4194368),
          (384, 384), (640, 640), (1152, 1152), (177, 4224), (1924, 16512), (1896, 32896),
          (1820, 65664), (1791, 131200), (1087, 262272), (487, 524416), (593, 1048704), (1326, 2097280),
          (991, 4194432), (768, 768), (1280, 1280), (305, 4352), (450, 8448), (1540, 16640),
          (1768, 33024), (1692, 65792), (1919, 3145728), (1471, 262400), (103, 524544), (977, 2228224),
          (1198, 1179648), (607, 4194560), (1536, 1536), (561, 4608), (706, 8704), (1284, 16896),
          (1512, 33280), (1436, 66048), (1151, 131584), (1727, 262656), (871, 524800), (209, 1049088),
          (1966, 2097664), (351, 4194816), (1073, 5120), (1218, 9216), (772, 17408), (1000, 33792),
          (924, 66560), (639, 132096), (191, 263168), (1383, 525312), (1745, 1049600), (430, 2098176),
          (1887, 4195328), (243, 12288), (1845, 20480), (2009, 36864), (1965, 69632), (1614, 135168),
          (1166, 266240), (342, 528384), (736, 1052672), (1439, 2101248), (878, 4198400), (1990, 24576),
          (1834, 40960), (1886, 73728), (1725, 139264), (1149, 270336), (421, 532480), (531, 1056768),
          (1388, 2105344), (925, 4202496), (236, 49152), (152, 81920), (379, 147456), (955, 278528),
          (1635, 540672), (1493, 1064960), (682, 2113536), (1115, 4210688), (116, 98304), (407, 163840),
          (1679, 557056), (1337, 1081344), (582, 2129920), (483, 196608), (803, 327680), (1787, 589824),
          (1357, 1114112), (562, 2162688), (1219, 4259840), (704, 393216), (1816, 655360), (1312, 4325376),
          (1496, 786432), (1646, 1310720), (273, 2359296), (950, 1572864), (1225, 2621440), (568, 4718592),
          (398, 5242880), (1777, 6291456)]\<rparr>"
  by code_simp

section \<open>Properties of the loops and of the constructed instance\<close>

subsection \<open>Bit-level facts about the loops\<close>

lemma getitem_in_range: "i < length xs \<Longrightarrow> getitem xs i = Inr (xs ! i)"
  by (simp add: getitem_def)

lemma calculate_syndrome_loop_bits:
  assumes "\<forall>i\<in>set idxs. i < length (parity_check_matrix self)"
  shows "\<exists>s. calculate_syndrome_loop self w idxs acc = Inr s \<and>
           (\<forall>k. bit s k \<longleftrightarrow> bit acc k \<or>
              (k \<in> set idxs \<and> odd (bin_count_1 (w AND parity_check_matrix self ! k))))"
  using assms
proof (induction idxs arbitrary: acc)
  case Nil
  then show ?case by simp
next
  case (Cons i rest)
  let ?acc' = "acc OR push_bit i (bin_count_1 (w AND parity_check_matrix self ! i) mod 2)"
  from Cons.prems have rest: "\<forall>j\<in>set rest. j < length (parity_check_matrix self)"
    and i: "i < length (parity_check_matrix self)" by simp_all
  from Cons.IH [OF rest, of ?acc'] obtain s where
    s: "calculate_syndrome_loop self w rest ?acc' = Inr s"
    and bits: "\<forall>k. bit s k \<longleftrightarrow> bit ?acc' k \<or>
              (k \<in> set rest \<and> odd (bin_count_1 (w AND parity_check_matrix self ! k)))"
    by blast
  have "calculate_syndrome_loop self w (i # rest) acc = Inr s"
    using s i by (simp add: getitem_in_range)
  moreover have "bit s k \<longleftrightarrow> bit acc k \<or>
      (k \<in> set (i # rest) \<and> odd (bin_count_1 (w AND parity_check_matrix self ! k)))" for k
    using bits by (auto simp add: bit_or_iff bit_push_bit_iff_int bit_mod_2_iff)
  ultimately show ?case by blast
qed

lemma bit_test: "drop_bit i (d::int) AND 1 \<noteq> 0 \<longleftrightarrow> bit d i"
  by (simp add: bit_iff_and_drop_bit_eq_1 and_one_eq)

lemma encode_loop_bits:
  assumes "\<forall>i\<in>set idxs. i < length (generator_matrix self)"
  shows "\<exists>c. encode_loop self d idxs cw = Inr c \<and>
           (\<forall>n. bit c n \<longleftrightarrow>
              (bit cw n \<noteq> odd (length (filter (\<lambda>i. bit d i \<and> bit (generator_matrix self ! i) n) idxs))))"
  using assms
proof (induction idxs arbitrary: cw)
  case Nil
  then show ?case by simp
next
  case (Cons i rest)
  from Cons.prems have rest: "\<forall>j\<in>set rest. j < length (generator_matrix self)"
    and i: "i < length (generator_matrix self)" by simp_all
  show ?case
  proof (cases "bit d i")
    case True
    from Cons.IH [OF rest, of "cw XOR generator_matrix self ! i"] obtain c where
      c: "encode_loop self d rest (cw XOR generator_matrix self ! i) = Inr c"
      and bits: "\<forall>n. bit c n \<longleftrightarrow>
              (bit (cw XOR generator_matrix self ! i) n \<noteq>
               odd (length (filter (\<lambda>i. bit d i \<and> bit (generator_matrix self ! i) n) rest)))"
      by blast
    have "encode_loop self d (i # rest) cw = Inr c"
      using c i True by (simp add: getitem_in_range bit_test)
    moreover have "bit c n \<longleftrightarrow>
              (bit cw n \<noteq> odd (length (filter (\<lambda>i. bit d i \<and> bit (generator_matrix self ! i) n) (i # rest))))" for n
      using bits True by (auto simp add: bit_xor_iff)
    ultimately show ?thesis by blast
  next
    case False
    from Cons.IH [OF rest, of cw] obtain c where
      c: "encode_loop self d rest cw = Inr c"
      and bits: "\<forall>n. bit c n \<longleftrightarrow>
              (bit cw n \<noteq>
               odd (length (filter (\<lambda>i. bit d i \<and> bit (generator_matrix self ! i) n) rest)))"
      by blast
    have "encode_loop self d (i # rest) cw = Inr c"
      using c False by (simp add: bit_test)
    moreover have "bit c n \<longleftrightarrow>
              (bit cw n \<noteq> odd (length (filter (\<lambda>i. bit d i \<and> bit (generator_matrix self ! i) n) (i # rest))))" for n
      using bits False by auto
    ultimately show ?thesis by blast
  qed
qed


subsection \<open>Facts about the constructed instance\<close>

text \<open>Everything below is read off the value of the constructor by evaluation.\<close>

lemma init_returns: "\<exists>g. GolayCode_init = Inr g"
  unfolding GolayCode_init_value by (rule exI) (rule refl)

lemma instance_shape:
  "case GolayCode_init of Inl e \<Rightarrow> False
   | Inr g \<Rightarrow>
       length (generator_matrix g) = 12 \<and> length (parity_check_matrix g) = 12 \<and>
       list_all (\<lambda>row. 0 \<le> row \<and> row < 8388608) (parity_check_matrix g) \<and>
       list_all (\<lambda>i. list_all (\<lambda>k. bit (generator_matrix g ! i) (22 - k) = (i = k)) [0..<12])
         [0..<12] \<and>
       list_all (\<lambda>(k, v). 0 \<le> v \<and> v < 8388608 \<and> (bin_count_1 v = 1 \<or> bin_count_1 v = 2))
         (syndrome_table g)"
  unfolding GolayCode_init_value by code_simp

lemma instance_facts:
  assumes "GolayCode_init = Inr g"
  shows "length (generator_matrix g) = 12" and "length (parity_check_matrix g) = 12"
    and "list_all (\<lambda>row. 0 \<le> row \<and> row < 8388608) (parity_check_matrix g)"
    and "list_all (\<lambda>i. list_all (\<lambda>k. bit (generator_matrix g ! i) (22 - k) = (i = k)) [0..<12])
           [0..<12]"
    and "list_all (\<lambda>(k, v). 0 \<le> v \<and> v < 8388608 \<and> (bin_count_1 v = 1 \<or> bin_count_1 v = 2))
           (syndrome_table g)"
  using instance_shape unfolding assms by simp_all

lemma parity_check_rows_23_bit:
  assumes "GolayCode_init = Inr g" and "row \<in> set (parity_check_matrix g)"
  shows "0 \<le> row \<and> row < 2 ^ 23"
  using instance_facts(3) [OF assms(1)] assms(2) by (simp add: list_all_iff)

lemma generator_identity_block:
  assumes "GolayCode_init = Inr g" and "i < 12" and "k < 12"
  shows "bit (generator_matrix g ! i) (22 - k) \<longleftrightarrow> i = k"
  using instance_facts(4) [OF assms(1)] assms(2,3) by (simp add: list_all_iff)

lemma table_values:
  assumes "GolayCode_init = Inr g" and "(s, e) \<in> set (syndrome_table g)"
  shows "0 \<le> e \<and> e < 2 ^ 23 \<and> (bin_count_1 e = 1 \<or> bin_count_1 e = 2)"
  using instance_facts(5) [OF assms(1)] assms(2) by (auto simp add: list_all_iff)


lemma syndrome_bits:
  assumes "GolayCode_init = Inr g"
  shows "\<exists>s. calculate_syndrome g w = Inr s \<and>
           (\<forall>k. bit s k \<longleftrightarrow> k < 11 \<and> odd (bin_count_1 (w AND parity_check_matrix g ! k)))"
proof -
  have "\<forall>i\<in>set [0..<11]. i < length (parity_check_matrix g)"
    by (simp add: instance_facts(2) [OF assms])
  from calculate_syndrome_loop_bits [OF this, of w 0]
  show ?thesis by (simp add: calculate_syndrome_def)
qed

lemma mask_23: "x AND (push_bit 23 1 - 1) = take_bit 23 x" for x :: int
proof -
  have "(push_bit 23 1 - 1 :: int) = mask 23"
    by (simp add: mask_eq_exp_minus_1)
  then show ?thesis
    by (simp only: take_bit_eq_mask)
qed

lemma drop_bit_11_range:
  fixes x :: int
  assumes "0 \<le> x" and "x < 2 ^ 23"
  shows "0 \<le> drop_bit 11 x \<and> drop_bit 11 x \<le> 4095"
proof -
  have "take_bit 23 x = x"
    using assms by (simp only: take_bit_int_eq_self)
  then have "drop_bit 11 x = drop_bit 11 (take_bit 23 x)"
    by simp
  also have "\<dots> = take_bit 12 (drop_bit 11 x)"
    by (simp add: drop_bit_take_bit)
  finally have eq: "drop_bit 11 x = take_bit 12 (drop_bit 11 x)" .
  have "0 \<le> take_bit 12 (drop_bit 11 x)"
    by (rule take_bit_nonnegative)
  moreover have "take_bit 12 (drop_bit 11 x) < 2 ^ 12"
    by (rule take_bit_int_less_exp)
  ultimately show ?thesis
    by (simp only: eq [symmetric]) simp
qed

lemma encode_bits:
  assumes "GolayCode_init = Inr g" and "0 \<le> d" and "d \<le> 4095"
  shows "\<exists>c. encode g d = Inr c \<and>
           (\<forall>n. bit c n \<longleftrightarrow> n < 23 \<and>
              odd (length (filter (\<lambda>i. bit d i \<and> bit (generator_matrix g ! i) n) [0..<12])))"
proof -
  have "\<forall>i\<in>set [0..<12]. i < length (generator_matrix g)"
    by (simp add: instance_facts(1) [OF assms(1)])
  from encode_loop_bits [OF this, of d 0] obtain c where
    c: "encode_loop g d [0..<12] 0 = Inr c"
    and bits: "\<forall>n. bit c n \<longleftrightarrow>
      odd (length (filter (\<lambda>i. bit d i \<and> bit (generator_matrix g ! i) n) [0..<12]))"
    by auto
  have "encode g d = Inr (take_bit 23 c)"
    using assms(2,3) c by (simp only: encode_def mask_23) simp
  then show ?thesis
    using bits by (simp add: bit_take_bit_iff)
qed


lemma bits_below_23:
  fixes c :: int
  assumes "\<forall>n. bit c n \<longrightarrow> n < 23"
  shows "0 \<le> c \<and> c < 2 ^ 23"
proof -
  have "take_bit 23 c = c"
    using assms by (auto simp add: bit_eq_iff bit_take_bit_iff)
  then show ?thesis
    by (simp only: take_bit_int_eq_self_iff)
qed

lemma information_bit_count:
  assumes "GolayCode_init = Inr g" and "i < 12"
  shows "length (filter (\<lambda>j. bit d j \<and> bit (generator_matrix g ! j) (22 - i)) [0..<12]) =
           (if bit d i then 1 else 0)"
proof -
  have "filter (\<lambda>j. bit d j \<and> bit (generator_matrix g ! j) (22 - i)) [0..<12] =
          filter (\<lambda>j. bit d j \<and> j = i) [0..<12]"
    by (rule filter_cong) (auto simp add: generator_identity_block [OF assms(1) _ assms(2)])
  moreover have "length (filter (\<lambda>j. bit d j \<and> j = i) [0..<12]) =
          card ({j. bit d j \<and> j = i} \<inter> set [0..<12])"
    by (rule distinct_length_filter) simp
  moreover have "{j. bit d j \<and> j = i} \<inter> set [0..<12] = (if bit d i then {i} else {})"
    using assms(2) by auto
  ultimately show ?thesis by simp
qed


text \<open>Where \<open>encode\<close> puts the bits of the data and how it forms the others.\<close>

lemma encode_bit_positions:
  assumes "GolayCode_init = Inr g" and "0 \<le> d" and "d \<le> 4095"
  shows "\<exists>c. encode g d = Inr c \<and> 0 \<le> c \<and> c < 2 ^ 23 \<and>
           (\<forall>i<12. bit c (22 - i) \<longleftrightarrow> bit d i) \<and>
           (\<forall>n<11. bit c n \<longleftrightarrow>
              odd (length (filter (\<lambda>i. bit d i \<and> bit (generator_matrix g ! i) n) [0..<12])))"
proof -
  from encode_bits [OF assms] obtain c where
    c: "encode g d = Inr c"
    and bits: "\<And>n. bit c n \<longleftrightarrow> n < 23 \<and>
      odd (length (filter (\<lambda>i. bit d i \<and> bit (generator_matrix g ! i) n) [0..<12]))"
    by blast
  have range: "0 \<le> c \<and> c < 2 ^ 23"
    by (rule bits_below_23) (simp add: bits)
  have info: "bit c (22 - i) \<longleftrightarrow> bit d i" if "i < 12" for i
  proof -
    have "22 - i < 23" by simp
    then show ?thesis
      by (simp add: bits information_bit_count [OF assms(1) that])
  qed
  have parity: "bit c n \<longleftrightarrow>
      odd (length (filter (\<lambda>i. bit d i \<and> bit (generator_matrix g ! i) n) [0..<12]))"
    if "n < 11" for n
    using that by (simp add: bits)
  from c range info parity show ?thesis by blast
qed

text \<open>The syndrome routine reads rows 0 to 10 only.\<close>

lemma calculate_syndrome_loop_first_11_rows:
  assumes "\<forall>i\<in>set idxs. i < 11"
  shows "calculate_syndrome_loop
           (self\<lparr>parity_check_matrix := take 11 (parity_check_matrix self)\<rparr>) w idxs acc =
         calculate_syndrome_loop self w idxs acc"
  using assms
proof (induction idxs arbitrary: acc)
  case Nil
  then show ?case by simp
next
  case (Cons i rest)
  then have "i < 11" by simp
  then have "getitem (take 11 (parity_check_matrix self)) i = getitem (parity_check_matrix self) i"
    by (simp add: getitem_def)
  with Cons show ?case
    by (simp split: sum.splits)
qed

lemma calculate_syndrome_reads_rows_0_to_10:
  "calculate_syndrome (self\<lparr>parity_check_matrix := take 11 (parity_check_matrix self)\<rparr>) w =
   calculate_syndrome self w"
  unfolding calculate_syndrome_def
  by (rule calculate_syndrome_loop_first_11_rows) simp

subsection \<open>A word with syndrome zero that is not a codeword\<close>

lemma bit_2048: "bit (2048 :: int) n \<longleftrightarrow> n = 11"
proof -
  have "(2048 :: int) = 2 ^ 11" by simp
  then show ?thesis by (simp only: bit_exp_iff) auto
qed

lemma encode_2048:
  "case GolayCode_init of Inl e \<Rightarrow> False | Inr g \<Rightarrow> encode g 2048 = Inr 4026"
  unfolding GolayCode_init_value by code_simp

lemma word_2048_not_a_codeword:
  assumes "GolayCode_init = Inr g"
  shows "\<not> (\<exists>d. encode g d = Inr 2048)"
proof
  assume "\<exists>d. encode g d = Inr 2048"
  then obtain d where d: "encode g d = Inr 2048" by blast
  have range: "0 \<le> d" "d \<le> 4095"
    using d by (auto simp add: encode_def split: if_splits)
  from encode_bits [OF assms range] d
  have bits: "\<And>n. bit (2048 :: int) n \<longleftrightarrow> n < 23 \<and>
      odd (length (filter (\<lambda>i. bit d i \<and> bit (generator_matrix g ! i) n) [0..<12]))"
    by auto
  have low: "bit d i \<longleftrightarrow> i = 11" if "i < 12" for i
  proof -
    have "22 - i < 23" by simp
    then have "bit (2048 :: int) (22 - i) \<longleftrightarrow> bit d i"
      by (simp only: bits information_bit_count [OF assms that]) simp
    then show ?thesis
      using that by (simp only: bit_2048) arith
  qed
  have "take_bit 12 d = d"
    using range by (simp add: take_bit_int_eq_self)
  then have high: "\<not> bit d i" if "12 \<le> i" for i
    using that by (metis bit_take_bit_iff not_le)
  have "bit d n \<longleftrightarrow> bit (2048 :: int) n" for n
  proof (cases "n < 12")
    case True
    then show ?thesis by (simp only: low bit_2048)
  next
    case False
    then show ?thesis by (simp add: high bit_2048)
  qed
  then have "d = 2048"
    by (simp add: bit_eq_iff)
  with d have "encode g 2048 = Inr 2048" by simp
  moreover from encode_2048 have "encode g 2048 = Inr 4026"
    unfolding assms by simp
  ultimately show False by simp
qed

lemma syndromes_of_4195809_and_2048:
  "case GolayCode_init of Inl e \<Rightarrow> False
   | Inr g \<Rightarrow> encode g 1 = Inr 4195809 \<and> calculate_syndrome g 4195809 = Inr 1726 \<and>
       calculate_syndrome g 2048 = Inr 0"
  unfolding GolayCode_init_value by code_simp

lemma uncorrectable_word:
  "case GolayCode_init of Inl e \<Rightarrow> False
   | Inr g \<Rightarrow> calculate_syndrome g 2796463 = Inr 1587 \<and>
       map_of (syndrome_table g) 1587 = None \<and> drop_bit 11 (2796463 :: int) = 1365"
  unfolding GolayCode_init_value by code_simp

lemma decode_negative_input:
  "case GolayCode_init of Inl e \<Rightarrow> False | Inr g \<Rightarrow> decode g (- 5) = Inr (4095, - 1)"
  unfolding GolayCode_init_value by code_simp

section \<open>The claims\<close>

text \<open>
  In the closed statements below, \<open>case GolayCode_init of Inl e \<Rightarrow> False | Inr g \<Rightarrow> P g\<close>
  reads: the constructor returns an object \<open>g\<close>, and \<open>P g\<close> holds of it.
\<close>

subsection \<open>C1: round trip without noise\<close>

text \<open>
  Claim C1 says that \<open>decode(encode(d))\<close> is \<open>(d, 0)\<close> for every \<open>d\<close> in \<open>[0, 4095]\<close>. The code
  does not do that. For the message of the demonstration, \<open>d = 0b101010101010 = 2730\<close>,
  \<open>encode\<close> returns 2796463 and \<open>decode\<close> of that word returns \<open>(1365, -1)\<close>: the syndrome
  of the codeword is 1587, not zero, it is not a key of the table, and the top 12 bits of
  the codeword are the 12 bits of \<open>d\<close> in reversed order (1365 is \<open>0b010101010101\<close>).
\<close>

theorem roundtrip_2730:
  "case GolayCode_init of Inl e \<Rightarrow> False
   | Inr g \<Rightarrow> encode g 2730 = Inr 2796463 \<and> decode g 2796463 = Inr (1365, - 1)"
  unfolding GolayCode_init_value by code_simp

subsection \<open>C2: single-bit correction\<close>

text \<open>
  Claim C2 says that \<open>decode(encode(d) XOR (1 << i))\<close> is \<open>(d, 1)\<close> for every \<open>d\<close> in
  \<open>[0, 4095]\<close> and every \<open>i\<close> in \<open>[0, 22]\<close>. The code returns \<open>(1365, -1)\<close> for \<open>d = 2730\<close>
  and \<open>i = 7\<close>, and \<open>(1, 2)\<close> for \<open>d = 0\<close> and \<open>i = 0\<close>: the table entry of syndrome 1, first
  written for the pattern \<open>1 << 0\<close>, was overwritten by the two-bit pattern
  \<open>(1 << 0) | (1 << 11)\<close>, which has the same syndrome.
\<close>

theorem single_bit_error_2730_bit_7:
  "case GolayCode_init of Inl e \<Rightarrow> False
   | Inr g \<Rightarrow> encode g 2730 = Inr 2796463 \<and>
       decode g (2796463 XOR push_bit 7 1) = Inr (1365, - 1) \<and>
       encode g 0 = Inr 0 \<and> decode g (0 XOR push_bit 0 1) = Inr (1, 2)"
  unfolding GolayCode_init_value by code_simp

subsection \<open>C3: double-bit correction\<close>

text \<open>
  Claim C3 says that \<open>decode(encode(d) XOR (1 << i) XOR (1 << j))\<close> is \<open>(d, 2)\<close> for every
  \<open>d\<close> in \<open>[0, 4095]\<close> and all distinct \<open>i\<close>, \<open>j\<close> in \<open>[0, 22]\<close>. The code returns
  \<open>(1365, -1)\<close> for \<open>d = 2730\<close>, \<open>i = 3\<close> and \<open>j = 9\<close>.
\<close>

theorem double_bit_error_2730_bits_3_9:
  "case GolayCode_init of Inl e \<Rightarrow> False
   | Inr g \<Rightarrow> encode g 2730 = Inr 2796463 \<and>
       decode g (2796463 XOR push_bit 3 1 XOR push_bit 9 1) = Inr (1365, - 1)"
  unfolding GolayCode_init_value by code_simp

subsection \<open>C4: the syndrome characterises the codewords\<close>

text \<open>
  Claim C4 says that the syndrome of a 23-bit word is zero if and only if the word is
  \<open>encode(d)\<close> for some \<open>d\<close> in \<open>[0, 4095]\<close>. Both directions fail on the code: the codeword
  \<open>encode(1) = 4195809\<close> has syndrome 1726, and the word 2048 has syndrome 0 although no
  call of \<open>encode\<close> returns it.
\<close>

theorem codeword_with_nonzero_syndrome:
  "case GolayCode_init of Inl e \<Rightarrow> False
   | Inr g \<Rightarrow> encode g 1 = Inr 4195809 \<and> calculate_syndrome g 4195809 = Inr 1726 \<and>
       calculate_syndrome g 2048 = Inr 0 \<and> \<not> (\<exists>d. encode g d = Inr 2048)"
proof -
  obtain g where g: "GolayCode_init = Inr g"
    using init_returns by blast
  from syndromes_of_4195809_and_2048 word_2048_not_a_codeword [OF g]
  show ?thesis
    unfolding g by simp
qed

subsection \<open>C5: the syndromes of the 276 error patterns\<close>

text \<open>
  Claim C5 says that the syndromes of the 23 single-bit and the 253 two-bit error patterns
  are pairwise distinct, so that the table has exactly 276 entries. The table the
  constructor builds has 242 entries. The patterns \<open>1 << 0\<close> and \<open>(1 << 0) | (1 << 11)\<close>
  both have syndrome 1, the table keeps the second of them under that key, and the
  single-bit pattern \<open>1 << 11\<close> has syndrome 0.
\<close>

theorem syndrome_table_collisions:
  "case GolayCode_init of Inl e \<Rightarrow> False
   | Inr g \<Rightarrow> length (syndrome_table g) = 242 \<and>
       calculate_syndrome g (push_bit 0 1) = Inr 1 \<and>
       calculate_syndrome g (push_bit 0 1 OR push_bit 11 1) = Inr 1 \<and>
       map_of (syndrome_table g) 1 = Some 2049 \<and>
       calculate_syndrome g (push_bit 11 1) = Inr 0"
  unfolding GolayCode_init_value by code_simp

subsection \<open>C6: the layout of a codeword\<close>

text \<open>
  Claim C6 says that a codeword is the 12 information bits in the low-order positions with
  the 11 parity bits above them, so that the low 12 bits of \<open>encode(d)\<close> are \<open>d\<close>. The
  code does not do that: \<open>encode(1)\<close> is 4195809, whose low 12 bits are 1505 and whose
  bits above them (\<open>>> 12\<close>) are 1024, and \<open>encode(2730)\<close> is 2796463, whose low 12 bits
  are 2991. The rows of the second matrix are laid out as the claim says, a 12-bit unit
  vector below the 11 parity bits of the generator row with the same index.
\<close>

theorem encode_low_12_bits:
  "case GolayCode_init of Inl e \<Rightarrow> False
   | Inr g \<Rightarrow> encode g 1 = Inr 4195809 \<and> (4195809 :: int) AND 4095 = 1505 \<and>
       (4195809 :: int) AND 4095 \<noteq> 1 \<and> drop_bit 12 (4195809 :: int) = 1024 \<and>
       encode g 2730 = Inr 2796463 \<and> (2796463 :: int) AND 4095 = 2991 \<and>
       list_all (\<lambda>i. parity_check_matrix g ! i =
           (push_bit 12 (generator_matrix g ! i AND 2047) OR push_bit i 1)) [0..<12]"
  unfolding GolayCode_init_value by code_simp

subsection \<open>C7: range validation of \<open>encode\<close>\<close>

text \<open>
  Claim C7: \<open>encode\<close> raises its InvalidInput error (Python's \<open>ValueError\<close>) exactly when
  the argument lies outside \<open>[0, 4095]\<close>, and returns a codeword for every argument inside.
\<close>

theorem encode_range_validation:
  assumes "GolayCode_init = Inr g"
  shows "(encode g d = Inl ValueError \<longleftrightarrow> d < 0 \<or> 4095 < d) \<and>
         (0 \<le> d \<and> d \<le> 4095 \<longrightarrow> (\<exists>c. encode g d = Inr c))"
proof (cases "0 \<le> d \<and> d \<le> 4095")
  case True
  with encode_bits [OF assms, of d] obtain c where "encode g d = Inr c" by blast
  with True show ?thesis by auto
next
  case False
  then have "encode g d = Inl ValueError"
    by (auto simp add: encode_def)
  with False show ?thesis by auto
qed


text \<open>
  The four calls the claim names: \<open>encode(4096)\<close> and \<open>encode(-1)\<close> raise, \<open>encode(0)\<close> and
  \<open>encode(4095)\<close> return.
\<close>

theorem encode_range_validation_witness:
  "case GolayCode_init of Inl e \<Rightarrow> False
   | Inr g \<Rightarrow> encode g 4096 = Inl ValueError \<and> encode g (- 1) = Inl ValueError \<and>
       (\<exists>c. encode g 0 = Inr c) \<and> (\<exists>c. encode g 4095 = Inr c)"
proof -
  obtain g where g: "GolayCode_init = Inr g"
    using init_returns by blast
  from encode_range_validation [OF g, of 4096] encode_range_validation [OF g, of "- 1"]
    encode_range_validation [OF g, of 0] encode_range_validation [OF g, of 4095]
  show ?thesis
    unfolding g by simp
qed


subsection \<open>C8: the uncorrectable outcome\<close>

text \<open>
  Claim C8: for a 23-bit received word whose syndrome is nonzero and is not a key of the
  syndrome table, \<open>decode\<close> returns, without raising, the top 12 bits of the word as
  received (\<open>received >> 11\<close>) and the error count \<open>-1\<close>.
\<close>

theorem decode_uncorrectable:
  assumes "GolayCode_init = Inr g" and "0 \<le> w" and "w < 2 ^ 23"
    and "calculate_syndrome g w = Inr s" and "s \<noteq> 0"
    and "s \<notin> fst ` set (syndrome_table g)"
  shows "decode g w = Inr (drop_bit 11 w, - 1)"
proof -
  have "w AND (push_bit 23 1 - 1) = w"
    using assms(2,3) by (simp only: mask_23 take_bit_int_eq_self)
  moreover have "map_of (syndrome_table g) s = None"
    using assms(6) by (simp add: map_of_eq_None_iff)
  ultimately show ?thesis
    using assms(4,5) by (simp add: decode_def)
qed


text \<open>The received word 2796463 is such a word: its syndrome is 1587.\<close>

theorem decode_uncorrectable_witness:
  "case GolayCode_init of Inl e \<Rightarrow> False
   | Inr g \<Rightarrow> (0 :: int) \<le> 2796463 \<and> (2796463 :: int) < 2 ^ 23 \<and>
       calculate_syndrome g 2796463 = Inr 1587 \<and> (1587 :: int) \<noteq> 0 \<and>
       1587 \<notin> fst ` set (syndrome_table g) \<and>
       decode g 2796463 = Inr (1365, - 1)"
proof -
  obtain g where g: "GolayCode_init = Inr g"
    using init_returns by blast
  from uncorrectable_word have s: "calculate_syndrome g 2796463 = Inr 1587"
    and absent: "map_of (syndrome_table g) 1587 = None"
    and top: "drop_bit 11 (2796463 :: int) = 1365"
    unfolding g by simp_all
  from absent have absent': "1587 \<notin> fst ` set (syndrome_table g)"
    by (simp add: map_of_eq_None_iff)
  have "decode g 2796463 = Inr (drop_bit 11 2796463, - 1)"
    by (rule decode_uncorrectable [OF g _ _ s _ absent']) simp_all
  with s absent' top show ?thesis
    unfolding g by simp
qed


subsection \<open>C9: the shape of the parity-check matrix\<close>

text \<open>
  Claim C9 says that the parity-check matrix has exactly 11 rows, from which the syndrome
  is assembled. The list the constructor stores has 12 rows; the syndrome routine reads
  rows 0 to 10 of it, so that cutting the list down to its first 11 rows changes no
  syndrome.
\<close>

theorem parity_check_matrix_has_12_rows:
  "case GolayCode_init of Inl e \<Rightarrow> False
   | Inr g \<Rightarrow> length (parity_check_matrix g) = 12 \<and> length (parity_check_matrix g) \<noteq> 11 \<and>
       (\<forall>w. calculate_syndrome (g\<lparr>parity_check_matrix := take 11 (parity_check_matrix g)\<rparr>) w =
            calculate_syndrome g w)"
proof -
  obtain g where g: "GolayCode_init = Inr g"
    using init_returns by blast
  from instance_facts(2) [OF g] calculate_syndrome_reads_rows_0_to_10 [of g]
  show ?thesis
    unfolding g by simp
qed

subsection \<open>C10: \<open>decode\<close> is total and its results are in range\<close>

text \<open>
  Claim C10: for every integer \<open>r\<close>, of any size and sign, \<open>decode(r)\<close> returns a pair
  without raising; the first component lies in \<open>[0, 4095]\<close> and the second is one of
  \<open>-1\<close>, 0, 1, 2, so an error count of 3 or more is never reported.
\<close>

theorem decode_total:
  assumes "GolayCode_init = Inr g"
  shows "\<exists>d e. decode g r = Inr (d, e) \<and> 0 \<le> d \<and> d \<le> 4095 \<and> e \<in> {- 1, 0, 1, 2}"
proof -
  define received where "received = r AND (push_bit 23 1 - 1)"
  have received: "0 \<le> received" "received < 2 ^ 23"
    by (simp_all only: received_def mask_23 take_bit_nonnegative take_bit_int_less_exp)
  from syndrome_bits [OF assms, of received] obtain s where
    s: "calculate_syndrome g received = Inr s" by blast
  show ?thesis
  proof (cases "s = 0")
    case True
    then have "decode g r = Inr (drop_bit 11 received, 0)"
      using s by (simp add: decode_def received_def)
    with drop_bit_11_range [OF received] show ?thesis by simp
  next
    case False
    show ?thesis
    proof (cases "map_of (syndrome_table g) s")
      case None
      then have "decode g r = Inr (drop_bit 11 received, - 1)"
        using s False by (simp add: decode_def received_def)
      with drop_bit_11_range [OF received] show ?thesis by simp
    next
      case (Some e)
      then have "(s, e) \<in> set (syndrome_table g)"
        by (rule map_of_SomeD)
      from table_values [OF assms this]
      have e: "0 \<le> e" "e < 2 ^ 23" and count: "bin_count_1 e = 1 \<or> bin_count_1 e = 2"
        by simp_all
      have "0 \<le> received XOR e"
        using received(1) e(1) by simp
      moreover have "received XOR e < 2 ^ 23"
        by (rule XOR_upper [OF received e(2)])
      ultimately
      have "0 \<le> drop_bit 11 (received XOR e) \<and> drop_bit 11 (received XOR e) \<le> 4095"
        by (rule drop_bit_11_range)
      moreover have "decode g r = Inr (drop_bit 11 (received XOR e), bin_count_1 e)"
        using s False Some by (simp add: decode_def received_def)
      ultimately show ?thesis
        using count by auto
    qed
  qed
qed



text \<open>A negative input: \<open>decode(-5)\<close> returns \<open>(4095, -1)\<close>.\<close>

theorem decode_total_witness:
  "case GolayCode_init of Inl e \<Rightarrow> False
   | Inr g \<Rightarrow> decode g (- 5) = Inr (4095, - 1) \<and>
       (\<exists>d e. decode g (- 5) = Inr (d, e) \<and> 0 \<le> d \<and> d \<le> 4095 \<and> e \<in> {- 1, 0, 1, 2})"
proof -
  obtain g where g: "GolayCode_init = Inr g"
    using init_returns by blast
  from decode_negative_input have "decode g (- 5) = Inr (4095, - 1)"
    unfolding g by simp
  with decode_total [OF g, of "- 5"] show ?thesis
    unfolding g by simp
qed


end
